theory Spec2Isabelle
  imports Main "HOL-Library.Word"
begin

section \<open>Server lifecycle of the pod identity webhook\<close>

text \<open>
  The development embeds \<^verbatim>\<open>pkg/handler/shutdown.go\<close> (the shutdown coordinator) and
  \<^verbatim>\<open>main.go\<close> (flag defaults, certificate source selection, server start).
  Calls into collaborators outside the repository (the HTTP server, the certificate
  manager, the Kubernetes client, the file system) are recorded as events of a trace; what
  such a call returns is supplied by an environment record, one field per call.
\<close>

subsection \<open>Durations\<close>

text \<open>
  Go's \<^verbatim>\<open>time.Duration\<close> is a signed 64-bit count of nanoseconds; the constants are those
  of package \<^verbatim>\<open>time\<close>.
\<close>

type_synonym duration = "64 word"

definition Nanosecond :: duration where
  "Nanosecond = 1"

definition Microsecond :: duration where
  "Microsecond = 1000 * Nanosecond"

definition Millisecond :: duration where
  "Millisecond = 1000 * Microsecond"

definition Second :: duration where
  "Second = 1000 * Millisecond"

definition Minute :: duration where
  "Minute = 60 * Second"

definition Hour :: duration where
  "Hour = 60 * Minute"

subsection \<open>Errors, signals and events\<close>

text \<open>
  A Go \<^verbatim>\<open>error\<close> value is \<open>go_error option\<close>, with \<open>None\<close> for \<^verbatim>\<open>nil\<close>.
  \<open>ErrServerClosed\<close> is the sentinel \<^verbatim>\<open>http.ErrServerClosed\<close>; \<open>ErrorString\<close> is an
  error built by \<^verbatim>\<open>fmt.Errorf\<close> or \<^verbatim>\<open>errors.New\<close>.
\<close>

datatype go_error = ErrServerClosed | DeadlineExceeded | Canceled | ErrorString string

text \<open>
  The two signals the program asks to be notified of. What the runtime does on any other
  signal is outside this development.
\<close>

datatype signal = SIGINT | SIGTERM

definition Interrupt :: signal where
  \<comment> \<open>\<^verbatim>\<open>os.Interrupt\<close>\<close>
  "Interrupt = SIGINT"

definition term_signal :: signal where
  \<comment> \<open>\<^verbatim>\<open>var term = syscall.SIGTERM\<close>\<close>
  "term_signal = SIGTERM"

datatype severity = INFO | ERROR | FATAL

datatype arg = Str string | Err "go_error option" | ErrText go_error

record csr =
  CommonName :: string

datatype event =
    MakeChan
  | SignalNotify signal
  | GoFunc
  | ChanRecv signal
  | Log severity string "arg list"
  | OsExit int
  | WithTimeout duration
  | ServerShutdown int
  | CtxDone
  | ServerClose
  | Cancel
  | BuildConfigFromFlags string string
  | NewForConfig
  | NewModifier duration string string string
  | NewServerCertificateManager string string csr
  | CertManagerStart
  | CertManagerStop
  | NewSelfSignedGenerator string string duration
  | UrlParse string
  | GenerateConfig
  | WriteFile string string nat
  | ListenAndServeTLS string

subsection \<open>The shutdown coordinator\<close>

text \<open>
  What the two server operations the coordinator calls return, and how long each blocks
  (in nanoseconds).
\<close>

record server_calls =
  Shutdown_err :: "go_error option"
  Shutdown_elapsed :: nat
  Close_err :: "go_error option"
  Close_elapsed :: nat

text \<open>
  What the goroutine started by \<^verbatim>\<open>ShutdownOnTerm\<close> closes over besides the server and the
  channel: the timeout.
\<close>

record coordinator =
  timeout :: duration

text \<open>
  How the goroutine ends: still blocked in the receive, returned from its function, having
  ended the process itself, or stopped because \<^verbatim>\<open>main\<close> returned and the process ended
  under it.
\<close>

datatype status = Parked | Returned | Exited int | Ended

text \<open>
  \<^verbatim>\<open>klog.Fatalf\<close> writes the message and calls \<^verbatim>\<open>os.Exit(255)\<close>; deferred calls do not run.
\<close>

definition fatalf :: "string \<Rightarrow> arg list \<Rightarrow> event list" where
  "fatalf fmt args = [Log FATAL fmt args, OsExit 255]"

text \<open>
  The statements of the goroutine after \<^verbatim>\<open>\<open><-c\<close>\<close> has delivered a signal at time \<open>t0\<close>,
  in program order, as they run when nothing stops the goroutine. Every event carries the
  clock at which the statement starts. The context's deadline is \<open>t0 + timeout\<close>; its
  \<^verbatim>\<open>cancel\<close> is deferred, so \<^verbatim>\<open>\<open><-ctx.Done()\<close>\<close> returns when the deadline has passed and not
  before.
\<close>

definition on_signal :: "duration \<Rightarrow> server_calls \<Rightarrow> int \<Rightarrow> (int \<times> event) list \<times> status" where
  "on_signal tmo srv t0 =
     (let deadline = t0 + sint tmo;
          t1 = t0 + int (Shutdown_elapsed srv);
          begin_events =
            [(t0, Log INFO ''Received SIGTERM/SIGINT. Beginning shutdown'' []),
             (t0, WithTimeout tmo),
             (t0, ServerShutdown deadline)]
      in if Shutdown_err srv \<noteq> Some ErrServerClosed then
           (let t2 = max t1 deadline;
                t3 = t2 + int (Close_elapsed srv);
                close_events = begin_events @
                  [(t1, CtxDone),
                   (t2, Log ERROR ''Error shutting server down: %v'' [Err (Shutdown_err srv)]),
                   (t2, ServerClose)]
            in case Close_err srv of
                 Some e \<Rightarrow>
                   (close_events @ map (Pair t3) (fatalf ''Error closing server: %v'' [Err (Some e)]),
                    Exited 255)
               | None \<Rightarrow> (close_events @ [(t3, Cancel)], Returned))
         else (begin_events @ [(t1, Cancel)], Returned))"

text \<open>
  The goroutine and \<^verbatim>\<open>main\<close> run concurrently; two numbers fix how they interleave.
  \<open>ready_at\<close> is the clock at which the goroutine, started by the \<^verbatim>\<open>go\<close> statement, blocks
  in \<^verbatim>\<open>\<open><-c\<close>\<close>. \<open>resume_delay\<close> is the time from the call of \<^verbatim>\<open>server.Shutdown\<close>, which
  makes \<^verbatim>\<open>ListenAndServeTLS\<close> return \<^verbatim>\<open>http.ErrServerClosed\<close> to \<^verbatim>\<open>main\<close>, to the moment
  \<^verbatim>\<open>main\<close> has returned and the process has ended.
\<close>

record schedule =
  ready_at :: int
  resume_delay :: nat

text \<open>
  The channel is made without a buffer and \<^verbatim>\<open>signal.Notify\<close> never blocks on a send: a
  signal delivered while the goroutine is blocked in the receive is handed to it, one
  delivered before that is dropped. \<open>sigs\<close> are the interrupt and terminate signals
  delivered to the process, each with its clock.
\<close>

fun received :: "schedule \<Rightarrow> (int \<times> signal) list \<Rightarrow> (int \<times> signal) option" where
  "received sch [] = None"
| "received sch ((t, s) # rest) =
     (if ready_at sch \<le> t then Some (t, s) else received sch rest)"

text \<open>
  The goroutine inside the process. It receives once and never again, so every signal
  after the first one received finds no receiver. From the call of \<^verbatim>\<open>server.Shutdown\<close>
  on, \<^verbatim>\<open>main\<close> is on its way out: of the statements of \<open>on_signal\<close>, those that start
  no later than \<open>resume_delay\<close> after the signal run, the others never do.
\<close>

definition goroutine ::
  "coordinator \<Rightarrow> server_calls \<Rightarrow> schedule \<Rightarrow> (int \<times> signal) list \<Rightarrow> (int \<times> event) list \<times> status" where
  "goroutine co srv sch sigs =
     (case received sch sigs of
        None \<Rightarrow> ([], Parked)
      | Some (t, s) \<Rightarrow>
          (case on_signal (timeout co) srv t of
             (tr, st) \<Rightarrow>
               (let alive = takeWhile (\<lambda>p. fst p \<le> t + int (resume_delay sch)) tr
                in ((t, ChanRecv s) # alive, if length alive = length tr then st else Ended))))"

definition ShutdownOnTerm :: "duration \<Rightarrow> event list \<times> coordinator" where
  "ShutdownOnTerm tmo =
     ([MakeChan, SignalNotify Interrupt, SignalNotify term_signal, GoFunc],
      \<lparr>timeout = tmo\<rparr>)"

subsection \<open>Command line flags\<close>

text \<open>
  The value of each flag after \<^verbatim>\<open>flag.Parse()\<close>. \<^verbatim>\<open>port\<close> is a Go \<^verbatim>\<open>int\<close>, rendered
  only in decimal; \<^verbatim>\<open>tokenExpiration\<close> is an \<^verbatim>\<open>int64\<close>.
\<close>

record flags =
  port :: int
  kubeconfig :: string
  apiURL :: string
  webhookConfig :: string
  certDirectory :: string
  selfSignedLife :: duration
  inCluster :: bool
  tlsSecret :: string
  serviceName :: string
  namespaceName :: string
  annotationPrefix :: string
  audience :: string
  mountPath :: string
  tokenExpiration :: "64 word"

text \<open>
  The defaults declared in \<^verbatim>\<open>main\<close>: what each flag holds when the command line does not
  set it.
\<close>

definition default_flags :: flags where
  "default_flags =
     \<lparr>port = 443,
      kubeconfig = [],
      apiURL = [],
      webhookConfig = ''/etc/webhook/config.yaml'',
      certDirectory = ''/etc/webhook/certs'',
      selfSignedLife = Hour * 24 * 365,
      inCluster = True,
      tlsSecret = ''iam-for-pods'',
      serviceName = ''iam-for-pods'',
      namespaceName = ''eks'',
      annotationPrefix = ''eks.amazonaws.com'',
      audience = ''sts.amazonaws.com'',
      mountPath = ''/var/run/secrets/eks.amazonaws.com/serviceaccount'',
      tokenExpiration = 86400\<rparr>"

subsection \<open>Formatting\<close>

fun digits :: "nat \<Rightarrow> string" where
  "digits n =
     (if n < 10 then [char_of (48 + n)]
      else digits (n div 10) @ [char_of (48 + n mod 10)])"

declare digits.simps [simp del]

definition itoa :: "int \<Rightarrow> string" where
  \<comment> \<open>the verb \<^verbatim>\<open>%d\<close> of \<^verbatim>\<open>fmt.Sprintf\<close>\<close>
  "itoa i = (if i < 0 then CHR ''-'' # digits (nat (- i)) else digits (nat i))"

subsection \<open>The certificate hook\<close>

text \<open>
  \<^verbatim>\<open>tlsConfig.GetCertificate\<close> is one of two functions: the closure over the certificate
  manager written in \<^verbatim>\<open>main\<close>, or the one the self-signed generator hands out. A served
  certificate is opaque; \<open>None\<close> is the \<^verbatim>\<open>nil\<close> pointer.
\<close>

datatype get_certificate = CertManagerCurrent | GeneratorGetCertificateFn

definition no_certificate_message :: string where
  "no_certificate_message = ''no serving certificate available for the webhook, is the CSR approved?''"

text \<open>
  One handshake: \<open>current\<close> is what \<^verbatim>\<open>certManager.Current()\<close> returns at that moment,
  \<open>generated\<close> what the generator's function returns.
\<close>

fun GetCertificate ::
  "get_certificate \<Rightarrow> 'c option \<Rightarrow> 'c option \<times> go_error option \<Rightarrow> 'c option \<times> go_error option" where
  "GetCertificate CertManagerCurrent current generated =
     (case current of
        None \<Rightarrow> (None, Some (ErrorString no_certificate_message))
      | Some c \<Rightarrow> (Some c, None))"
| "GetCertificate GeneratorGetCertificateFn current generated = generated"

subsection \<open>Startup\<close>

text \<open>
  What each collaborator called during one run of \<^verbatim>\<open>main\<close> returns. Every one of them is
  called at most once in a run. \<open>listen_error\<close> is the error with which
  \<^verbatim>\<open>ListenAndServeTLS\<close> gives up before it serves, \<open>None\<close> when the server listens.
\<close>

record env =
  build_config :: "go_error option"
  new_for_config :: "go_error option"
  new_cert_manager :: "go_error option"
  url_parse :: "go_error option"
  generate_config :: "go_error + string"
  write_file :: "go_error option"
  listen_error :: "go_error option"

record server =
  Addr :: string
  TLSConfig_GetCertificate :: get_certificate

record started =
  http_server :: server
  coord :: coordinator

text \<open>
  The branch on \<^verbatim>\<open>*inCluster\<close>: it installs the certificate hook, or ends the process.
\<close>

definition tls_setup :: "flags \<Rightarrow> env \<Rightarrow> event list \<times> (int + get_certificate)" where
  "tls_setup fl en =
     (if inCluster fl then
        (let req = \<lparr>CommonName = serviceName fl @ ''.'' @ namespaceName fl @ ''.svc''\<rparr>;
             ev = [NewServerCertificateManager (namespaceName fl) (tlsSecret fl) req]
         in case new_cert_manager en of
              Some e \<Rightarrow>
                (ev @ fatalf ''failed to initialize certificate manager: %v'' [Err (Some e)], Inl 255)
            | None \<Rightarrow> (ev @ [CertManagerStart], Inr CertManagerCurrent))
      else
        (let ev = [NewSelfSignedGenerator ''localhost'' (certDirectory fl) (selfSignedLife fl),
                   UrlParse (''https://localhost:'' @ itoa (port fl))]
         in case url_parse en of
              Some e \<Rightarrow> (ev @ fatalf ''Error setting up server: %+v'' [Err (Some e)], Inl 255)
            | None \<Rightarrow>
                (case generate_config en of
                   Inl e \<Rightarrow>
                     (ev @ GenerateConfig # fatalf ''Error creating webhook config: %+v'' [Err (Some e)],
                      Inl 255)
                 | Inr configBytes \<Rightarrow>
                     (let ev' = ev @ [GenerateConfig, WriteFile (webhookConfig fl) configBytes 420]
                      in case write_file en of
                           Some e \<Rightarrow>
                             (ev' @ fatalf ''Error writing webhook config: %+v'' [Err (Some e)], Inl 255)
                         | None \<Rightarrow> (ev', Inr GeneratorGetCertificateFn)))))"

text \<open>
  \<^verbatim>\<open>main\<close> up to and including the call of \<^verbatim>\<open>ShutdownOnTerm\<close>. Building the request
  multiplexers registers routes and calls nothing that can fail; it leaves no event.
\<close>

definition startup :: "flags \<Rightarrow> env \<Rightarrow> event list \<times> (int + started)" where
  "startup fl en =
     (let ev1 = [BuildConfigFromFlags (apiURL fl) (kubeconfig fl)]
      in case build_config en of
           Some e \<Rightarrow> (ev1 @ fatalf ''Error creating config: %v'' [ErrText e], Inl 255)
         | None \<Rightarrow>
             (let ev2 = ev1 @ [NewForConfig]
              in case new_for_config en of
                   Some e \<Rightarrow> (ev2 @ fatalf ''Error creating clientset: %v'' [ErrText e], Inl 255)
                 | None \<Rightarrow>
                     (let ev3 = ev2 @ [NewModifier (tokenExpiration fl) (annotationPrefix fl)
                                         (audience fl) (mountPath fl)];
                          hostPort = '':'' @ itoa (port fl)
                      in case tls_setup fl en of
                           (ev4, Inl code) \<Rightarrow> (ev3 @ ev4, Inl code)
                         | (ev4, Inr hook) \<Rightarrow>
                             (case ShutdownOnTerm (10 * Second) of
                                (ev5, co) \<Rightarrow>
                                  (ev3 @ ev4 @ Log INFO ''Creating server'' [] # ev5,
                                   Inr \<lparr>http_server =
                                          \<lparr>Addr = hostPort, TLSConfig_GetCertificate = hook\<rparr>,
                                        coord = co\<rparr>)))))"

text \<open>
  What \<^verbatim>\<open>main\<close> does with the error \<^verbatim>\<open>ListenAndServeTLS\<close> returns. The deferred
  \<^verbatim>\<open>certManager.Stop()\<close> runs on the normal return only.
\<close>

datatype outcome = Exit int | Running

definition after_serve :: "flags \<Rightarrow> go_error option \<Rightarrow> event list \<times> outcome" where
  "after_serve fl err =
     (if err \<noteq> Some ErrServerClosed
      then (fatalf ''Error listening: %q'' [Err err], Exit 255)
      else (Log INFO ''Graceflully closed'' [] # (if inCluster fl then [CertManagerStop] else []),
            Exit 0))"

text \<open>
  The whole process. \<^verbatim>\<open>ListenAndServeTLS\<close> returns at once with \<open>listen_error\<close> when the
  server cannot listen. Otherwise it blocks while the signals \<open>sigs\<close> arrive. As long as
  the goroutine has received none, the process keeps running. Once the goroutine has called
  \<^verbatim>\<open>server.Shutdown\<close>, \<^verbatim>\<open>ListenAndServeTLS\<close> returns \<^verbatim>\<open>http.ErrServerClosed\<close> and \<^verbatim>\<open>main\<close>
  returns \<open>resume_delay\<close> later, which ends the process whatever the goroutine is doing,
  unless the goroutine has ended it before through \<^verbatim>\<open>klog.Fatalf\<close>.
\<close>

definition main ::
  "flags \<Rightarrow> env \<Rightarrow> server_calls \<Rightarrow> schedule \<Rightarrow> (int \<times> signal) list \<Rightarrow> event list \<times> outcome" where
  "main fl en srv sch sigs =
     (case startup fl en of
        (ev, Inl code) \<Rightarrow> (ev, Exit code)
      | (ev, Inr st) \<Rightarrow>
          (let ev1 = ev @ [Log INFO ''Listening on %s'' [Str (Addr (http_server st))],
                           ListenAndServeTLS (Addr (http_server st))]
           in case listen_error en of
                Some e \<Rightarrow>
                  (case after_serve fl (Some e) of (ev2, out) \<Rightarrow> (ev1 @ ev2, out))
              | None \<Rightarrow>
                  (case goroutine (coord st) srv sch sigs of
                     (tr, Parked) \<Rightarrow> (ev1, Running)
                   | (tr, Exited code) \<Rightarrow> (ev1 @ map snd tr, Exit code)
                   | (tr, _) \<Rightarrow>
                       (case after_serve fl (Some ErrServerClosed) of
                          (ev2, out) \<Rightarrow> (ev1 @ map snd tr @ ev2, out)))))"

subsection \<open>Reading a trace\<close>

fun is_shutdown :: "event \<Rightarrow> bool" where
  "is_shutdown (ServerShutdown d) = True"
| "is_shutdown e = False"

fun is_log :: "severity \<Rightarrow> event \<Rightarrow> bool" where
  "is_log sev (Log sev' fmt args) = (sev = sev')"
| "is_log sev e = False"

definition shutdown_calls :: "(int \<times> event) list \<Rightarrow> event list" where
  "shutdown_calls tr = filter is_shutdown (map snd tr)"

definition close_times :: "(int \<times> event) list \<Rightarrow> int list" where
  "close_times tr = map fst (filter (\<lambda>p. snd p = ServerClose) tr)"

definition logs :: "severity \<Rightarrow> (int \<times> event) list \<Rightarrow> event list" where
  "logs sev tr = filter (is_log sev) (map snd tr)"

text \<open>\<open>first_of a b xs\<close>: reading \<open>xs\<close> from the left, \<open>a\<close> is met before any \<open>b\<close>.\<close>

fun first_of :: "'a \<Rightarrow> 'a \<Rightarrow> 'a list \<Rightarrow> bool" where
  "first_of a b [] = False"
| "first_of a b (x # xs) = (if x = a then True else if x = b then False else first_of a b xs)"

text \<open>The arguments of the calls of one kind, in the order of the trace.\<close>

fun csr_requests :: "event list \<Rightarrow> csr list" where
  "csr_requests [] = []"
| "csr_requests (NewServerCertificateManager ns sec req # es) = req # csr_requests es"
| "csr_requests (e # es) = csr_requests es"

fun timeouts :: "event list \<Rightarrow> duration list" where
  "timeouts [] = []"
| "timeouts (WithTimeout d # es) = d # timeouts es"
| "timeouts (e # es) = timeouts es"

fun listens :: "event list \<Rightarrow> string list" where
  "listens [] = []"
| "listens (ListenAndServeTLS a # es) = a # listens es"
| "listens (e # es) = listens es"

subsection \<open>Sample runs\<close>

text \<open>
  An environment in which every startup call succeeds and the server listens; a server with
  no open connection, whose graceful shutdown returns \<^verbatim>\<open>nil\<close> after one millisecond; a
  schedule in which \<^verbatim>\<open>main\<close> has returned two milliseconds after the call of
  \<^verbatim>\<open>server.Shutdown\<close>, and one in which it is held up for eleven seconds.
\<close>

definition sample_env :: env where
  "sample_env =
     \<lparr>build_config = None, new_for_config = None, new_cert_manager = None, url_parse = None,
      generate_config = Inr ''webhooks: []'', write_file = None,
      listen_error = None\<rparr>"

definition drained :: server_calls where
  "drained = \<lparr>Shutdown_err = None, Shutdown_elapsed = 1000000, Close_err = None, Close_elapsed = 0\<rparr>"

definition prompt :: schedule where
  "prompt = \<lparr>ready_at = 0, resume_delay = 2000000\<rparr>"

definition held_up :: schedule where
  "held_up = \<lparr>ready_at = 0, resume_delay = 11000000000\<rparr>"

section \<open>Properties\<close>

subsection \<open>Auxiliary facts\<close>

lemma ten_seconds: "sint (10 * Second) = 10000000000"
  by (simp add: Second_def Millisecond_def Microsecond_def Nanosecond_def)

lemma one_year: "sint (Hour * 24 * 365) = 365 * 24 * 60 * 60 * 1000000000"
  by (simp add: Hour_def Minute_def Second_def Millisecond_def Microsecond_def Nanosecond_def)

lemma on_signal_closed:
  assumes "Shutdown_err srv = Some ErrServerClosed"
  shows "on_signal tmo srv t0 =
    ([(t0, Log INFO ''Received SIGTERM/SIGINT. Beginning shutdown'' []),
      (t0, WithTimeout tmo),
      (t0, ServerShutdown (t0 + sint tmo)),
      (t0 + int (Shutdown_elapsed srv), Cancel)], Returned)"
  using assms by (simp add: on_signal_def)

lemma on_signal_other:
  assumes "Shutdown_err srv \<noteq> Some ErrServerClosed"
  shows "on_signal tmo srv t0 =
    ([(t0, Log INFO ''Received SIGTERM/SIGINT. Beginning shutdown'' []),
      (t0, WithTimeout tmo),
      (t0, ServerShutdown (t0 + sint tmo)),
      (t0 + int (Shutdown_elapsed srv), CtxDone),
      (max (t0 + int (Shutdown_elapsed srv)) (t0 + sint tmo),
         Log ERROR ''Error shutting server down: %v'' [Err (Shutdown_err srv)]),
      (max (t0 + int (Shutdown_elapsed srv)) (t0 + sint tmo), ServerClose)] @
     (case Close_err srv of
        Some e \<Rightarrow>
          [(max (t0 + int (Shutdown_elapsed srv)) (t0 + sint tmo) + int (Close_elapsed srv),
              Log FATAL ''Error closing server: %v'' [Err (Some e)]),
           (max (t0 + int (Shutdown_elapsed srv)) (t0 + sint tmo) + int (Close_elapsed srv),
              OsExit 255)]
      | None \<Rightarrow>
          [(max (t0 + int (Shutdown_elapsed srv)) (t0 + sint tmo) + int (Close_elapsed srv),
              Cancel)]),
     case Close_err srv of Some e \<Rightarrow> Exited 255 | None \<Rightarrow> Returned)"
  using assms by (simp add: on_signal_def fatalf_def Let_def split: option.split)

lemma timeouts_append: "timeouts (xs @ ys) = timeouts xs @ timeouts ys"
  by (induction xs rule: timeouts.induct) simp_all

lemma csr_requests_append: "csr_requests (xs @ ys) = csr_requests xs @ csr_requests ys"
  by (induction xs rule: csr_requests.induct) simp_all

lemma listens_append: "listens (xs @ ys) = listens xs @ listens ys"
  by (induction xs rule: listens.induct) simp_all

lemma first_of_append:
  "a \<notin> set xs \<Longrightarrow> b \<notin> set xs \<Longrightarrow> first_of a b (xs @ ys) = first_of a b ys"
  by (induction xs) auto

lemma tls_setup_Inr:
  assumes "tls_setup fl en = (ev, Inr hook)"
  shows "hook = (if inCluster fl then CertManagerCurrent else GeneratorGetCertificateFn)"
    and "timeouts ev = []" and "listens ev = []" and "GoFunc \<notin> set ev"
    and "csr_requests ev =
           (if inCluster fl
            then [\<lparr>CommonName = serviceName fl @ ''.'' @ namespaceName fl @ ''.svc''\<rparr>] else [])"
    and "\<not> inCluster fl \<Longrightarrow>
           \<exists>pre bytes. generate_config en = Inr bytes \<and> write_file en = None \<and>
             ev = pre @ [WriteFile (webhookConfig fl) bytes 420] \<and>
             (\<forall>a. ListenAndServeTLS a \<notin> set pre) \<and>
             WriteFile (webhookConfig fl) bytes 420 \<notin> set pre"
  using assms
  by (auto simp: tls_setup_def fatalf_def Let_def split: if_splits option.splits sum.splits)

lemma tls_setup_Inl:
  assumes "tls_setup fl en = (ev, Inl code)"
  shows "code = 255" and "timeouts ev = []" and "listens ev = []" and "OsExit 255 \<in> set ev"
    and "csr_requests ev =
           (if inCluster fl
            then [\<lparr>CommonName = serviceName fl @ ''.'' @ namespaceName fl @ ''.svc''\<rparr>] else [])"
  using assms
  by (auto simp: tls_setup_def fatalf_def Let_def split: if_splits option.splits sum.splits)

lemma set_timeouts: "set (timeouts es) = {d. WithTimeout d \<in> set es}"
  by (induction es rule: timeouts.induct) auto

lemma set_csr_requests:
  "set (csr_requests es) = {req. \<exists>ns sec. NewServerCertificateManager ns sec req \<in> set es}"
  by (induction es rule: csr_requests.induct) auto

lemma on_signal_events:
  assumes "(t', e) \<in> set (fst (on_signal tmo srv t))"
  shows "e \<in> {Log INFO ''Received SIGTERM/SIGINT. Beginning shutdown'' [], WithTimeout tmo,
               ServerShutdown (t + sint tmo), CtxDone, Cancel, OsExit 255, ServerClose,
               Log ERROR ''Error shutting server down: %v'' [Err (Shutdown_err srv)]} \<or>
         (\<exists>err. Close_err srv = Some err \<and> e = Log FATAL ''Error closing server: %v'' [Err (Some err)])"
  using assms
  by (cases "Shutdown_err srv = Some ErrServerClosed")
     (auto simp: on_signal_closed on_signal_other split: option.splits)

lemma goroutine_Parked:
  assumes "received sch sigs = None"
  shows "goroutine co srv sch sigs = ([], Parked)"
  using assms by (simp add: goroutine_def)

lemma goroutine_received:
  assumes "received sch sigs = Some (t, s)"
  shows "goroutine co srv sch sigs =
           ((t, ChanRecv s) #
              takeWhile (\<lambda>p. fst p \<le> t + int (resume_delay sch)) (fst (on_signal (timeout co) srv t)),
            if length (takeWhile (\<lambda>p. fst p \<le> t + int (resume_delay sch))
                         (fst (on_signal (timeout co) srv t))) =
               length (fst (on_signal (timeout co) srv t))
            then snd (on_signal (timeout co) srv t) else Ended)"
  using assms by (simp add: goroutine_def Let_def case_prod_beta)

lemma goroutine_cases:
  obtains (parked) "received sch sigs = None" "goroutine co srv sch sigs = ([], Parked)"
  | (woken) t s where "received sch sigs = Some (t, s)"
      "goroutine co srv sch sigs =
         ((t, ChanRecv s) #
            takeWhile (\<lambda>p. fst p \<le> t + int (resume_delay sch)) (fst (on_signal (timeout co) srv t)),
          if length (takeWhile (\<lambda>p. fst p \<le> t + int (resume_delay sch))
                       (fst (on_signal (timeout co) srv t))) =
             length (fst (on_signal (timeout co) srv t))
          then snd (on_signal (timeout co) srv t) else Ended)"
proof (cases "received sch sigs")
  case None
  with parked goroutine_Parked show ?thesis by blast
next
  case (Some p)
  obtain t s where "p = (t, s)" by (cases p)
  with Some woken goroutine_received show ?thesis by blast
qed

lemma goroutine_events:
  assumes "(t', e) \<in> set (fst (goroutine co srv sch sigs))"
  shows "\<exists>t s. received sch sigs = Some (t, s) \<and>
           ((t', e) = (t, ChanRecv s) \<or> (t', e) \<in> set (fst (on_signal (timeout co) srv t)))"
proof (cases co srv sch sigs rule: goroutine_cases)
  case parked
  with assms show ?thesis by simp
next
  case (woken t s)
  with assms show ?thesis by (auto dest: set_takeWhileD)
qed

lemma goroutine_timeouts: "set (timeouts (map snd (fst (goroutine co srv sch sigs)))) \<subseteq> {timeout co}"
proof
  fix d assume "d \<in> set (timeouts (map snd (fst (goroutine co srv sch sigs))))"
  then obtain t' where "(t', WithTimeout d) \<in> set (fst (goroutine co srv sch sigs))"
    by (auto simp: set_timeouts)
  then obtain t where "(t', WithTimeout d) \<in> set (fst (on_signal (timeout co) srv t))"
    using goroutine_events by blast
  then show "d \<in> {timeout co}"
    using on_signal_events by fastforce
qed

lemma goroutine_csr: "csr_requests (map snd (fst (goroutine co srv sch sigs))) = []"
proof -
  have "set (csr_requests (map snd (fst (goroutine co srv sch sigs)))) = {}"
  proof (rule ccontr)
    assume "set (csr_requests (map snd (fst (goroutine co srv sch sigs)))) \<noteq> {}"
    then obtain t' ns sec req where
      "(t', NewServerCertificateManager ns sec req) \<in> set (fst (goroutine co srv sch sigs))"
      by (auto simp: set_csr_requests)
    then obtain t where
      "(t', NewServerCertificateManager ns sec req) \<in> set (fst (on_signal (timeout co) srv t))"
      using goroutine_events by blast
    then show False
      using on_signal_events by fastforce
  qed
  then show ?thesis by simp
qed

lemma startup_Inr:
  assumes "startup fl en = (ev, Inr st)"
  shows "coord st = \<lparr>timeout = 10 * Second\<rparr>"
    and "http_server st =
           \<lparr>Addr = '':'' @ itoa (port fl),
            TLSConfig_GetCertificate =
              (if inCluster fl then CertManagerCurrent else GeneratorGetCertificateFn)\<rparr>"
    and "build_config en = None" and "new_for_config en = None"
    and "\<exists>ev4. tls_setup fl en = (ev4, Inr (TLSConfig_GetCertificate (http_server st))) \<and>
           ev = [BuildConfigFromFlags (apiURL fl) (kubeconfig fl), NewForConfig,
                 NewModifier (tokenExpiration fl) (annotationPrefix fl) (audience fl) (mountPath fl)] @
                ev4 @
                [Log INFO ''Creating server'' [], MakeChan, SignalNotify Interrupt,
                 SignalNotify term_signal, GoFunc]"
  using assms tls_setup_Inr(1) [of fl en]
  by (auto simp: startup_def ShutdownOnTerm_def fatalf_def Let_def
           split: option.splits sum.splits prod.splits)

lemma startup_Inl:
  assumes "startup fl en = (ev, Inl code)"
  shows "code = 255" and "timeouts ev = []" and "listens ev = []" and "OsExit 255 \<in> set ev"
  using assms tls_setup_Inl [of fl en]
  by (auto simp: startup_def ShutdownOnTerm_def fatalf_def Let_def timeouts_append listens_append
           split: option.splits sum.splits prod.splits)

lemma listens_Nil_notin: "listens xs = [] \<Longrightarrow> ListenAndServeTLS a \<notin> set xs"
  by (induction xs rule: listens.induct) simp_all

lemma main_Inl:
  assumes "startup fl en = (ev, Inl code)"
  shows "main fl en srv sch sigs = (ev, Exit code)"
  using assms by (simp add: main_def)

lemma main_Inr:
  assumes "startup fl en = (ev, Inr st)"
  shows "\<exists>mid tail. fst (main fl en srv sch sigs) =
           ev @ [Log INFO ''Listening on %s'' [Str (Addr (http_server st))],
                 ListenAndServeTLS (Addr (http_server st))] @ mid @ tail \<and>
           (mid = [] \<or> mid = map snd (fst (goroutine (coord st) srv sch sigs))) \<and>
           timeouts tail = [] \<and> csr_requests tail = []"
proof (cases "listen_error en")
  case (Some e)
  with assms have "fst (main fl en srv sch sigs) =
      ev @ [Log INFO ''Listening on %s'' [Str (Addr (http_server st))],
            ListenAndServeTLS (Addr (http_server st))] @ [] @ fst (after_serve fl (Some e))"
    by (simp add: main_def Let_def case_prod_beta)
  moreover have "timeouts (fst (after_serve fl (Some e))) = []"
    and "csr_requests (fst (after_serve fl (Some e))) = []"
    by (simp_all add: after_serve_def fatalf_def)
  ultimately show ?thesis by blast
next
  case None
  let ?g = "goroutine (coord st) srv sch sigs"
  let ?ev1 = "ev @ [Log INFO ''Listening on %s'' [Str (Addr (http_server st))],
                    ListenAndServeTLS (Addr (http_server st))]"
  have closed: "timeouts (fst (after_serve fl (Some ErrServerClosed))) = []"
    "csr_requests (fst (after_serve fl (Some ErrServerClosed))) = []"
    by (simp_all add: after_serve_def)
  show ?thesis
  proof (cases "snd ?g")
    case Parked
    with assms None have "fst (main fl en srv sch sigs) = ?ev1 @ [] @ []"
      by (simp add: main_def Let_def case_prod_beta)
    then show ?thesis by (metis append_Nil2 timeouts.simps(1) csr_requests.simps(1) append_assoc)
  next
    case Returned
    with assms None have "fst (main fl en srv sch sigs) =
        ?ev1 @ map snd (fst ?g) @ fst (after_serve fl (Some ErrServerClosed))"
      by (simp add: main_def Let_def case_prod_beta)
    with closed show ?thesis by (metis append_assoc)
  next
    case (Exited code)
    with assms None have "fst (main fl en srv sch sigs) = ?ev1 @ map snd (fst ?g) @ []"
      by (simp add: main_def Let_def case_prod_beta)
    then show ?thesis by (metis timeouts.simps(1) csr_requests.simps(1) append_assoc)
  next
    case Ended
    with assms None have "fst (main fl en srv sch sigs) =
        ?ev1 @ map snd (fst ?g) @ fst (after_serve fl (Some ErrServerClosed))"
      by (simp add: main_def Let_def case_prod_beta)
    with closed show ?thesis by (metis append_assoc)
  qed
qed

lemma main_exit:
  assumes "startup fl en = (ev, Inr st)" and "listen_error en = None"
  shows "snd (main fl en srv sch sigs) =
           (case snd (goroutine (coord st) srv sch sigs) of
              Parked \<Rightarrow> Running
            | Exited code \<Rightarrow> Exit code
            | _ \<Rightarrow> Exit 0)"
  using assms
  by (simp add: main_def Let_def case_prod_beta after_serve_def split: status.splits)

lemma itoa_default_port: "itoa 443 = ''443''"
  by code_simp

lemma startup_sample:
  "startup default_flags sample_env =
     ([BuildConfigFromFlags [] [], NewForConfig,
       NewModifier 86400 ''eks.amazonaws.com'' ''sts.amazonaws.com''
         ''/var/run/secrets/eks.amazonaws.com/serviceaccount'',
       NewServerCertificateManager ''eks'' ''iam-for-pods'' \<lparr>CommonName = ''iam-for-pods.eks.svc''\<rparr>,
       CertManagerStart,
       Log INFO ''Creating server'' [],
       MakeChan, SignalNotify Interrupt, SignalNotify term_signal, GoFunc],
      Inr \<lparr>http_server = \<lparr>Addr = '':443'', TLSConfig_GetCertificate = CertManagerCurrent\<rparr>,
           coord = \<lparr>timeout = 10 * Second\<rparr>\<rparr>)"
  by (simp add: startup_def tls_setup_def ShutdownOnTerm_def default_flags_def sample_env_def
        itoa_default_port)

lemma sample_env_listens: "listen_error sample_env = None"
  by (simp add: sample_env_def)

lemma startup_cases:
  obtains (fatal) ev where "startup fl en = (ev, Inl 255)"
  | (running) ev st where "startup fl en = (ev, Inr st)"
proof (cases "startup fl en")
  case (Pair ev r)
  show ?thesis
  proof (cases r)
    case (Inl code)
    with Pair startup_Inl(1) [of fl en ev code] fatal show ?thesis by simp
  next
    case (Inr st)
    with Pair running show ?thesis by simp
  qed
qed

lemma startup_csr:
  assumes "build_config en = None" and "new_for_config en = None"
  shows "csr_requests (fst (startup fl en)) =
           (if inCluster fl
            then [\<lparr>CommonName = serviceName fl @ ''.'' @ namespaceName fl @ ''.svc''\<rparr>] else [])"
proof (cases "tls_setup fl en")
  case (Pair ev4 r)
  show ?thesis
  proof (cases r)
    case (Inl code)
    with Pair tls_setup_Inl(5) [of fl en ev4 code] assms show ?thesis
      by (simp add: startup_def csr_requests_append)
  next
    case (Inr hook)
    with Pair tls_setup_Inr(5) [of fl en ev4 hook] assms show ?thesis
      by (simp add: startup_def ShutdownOnTerm_def csr_requests_append)
  qed
qed


text \<open>
  A signal that the goroutine receives leads to exactly one call of \<^verbatim>\<open>server.Shutdown\<close>,
  with the deadline a timeout after the signal, whatever signals follow; and the goroutine
  is started before \<^verbatim>\<open>ListenAndServeTLS\<close> is called.
\<close>

lemma shutdown_once_when_received:
  assumes "received sch sigs = Some (t, s)"
  shows "shutdown_calls (fst (goroutine co srv sch sigs)) = [ServerShutdown (t + sint (timeout co))]"
  unfolding goroutine_received [OF assms]
  by (cases "Shutdown_err srv = Some ErrServerClosed")
     (simp_all add: on_signal_closed on_signal_other shutdown_calls_def split: option.split)

lemma goroutine_started_before_listening:
  assumes "startup fl en = (ev, Inr st)"
  shows "first_of GoFunc (ListenAndServeTLS (Addr (http_server st))) (fst (main fl en srv sch sigs))"
proof -
  obtain ev4 where ev4: "tls_setup fl en = (ev4, Inr (TLSConfig_GetCertificate (http_server st)))"
    and ev: "ev = [BuildConfigFromFlags (apiURL fl) (kubeconfig fl), NewForConfig,
                   NewModifier (tokenExpiration fl) (annotationPrefix fl) (audience fl) (mountPath fl)] @
                  ev4 @
                  [Log INFO ''Creating server'' [], MakeChan, SignalNotify Interrupt,
                   SignalNotify term_signal, GoFunc]"
    using startup_Inr(5) [OF assms] by blast
  obtain rest where tr: "fst (main fl en srv sch sigs) =
      ev @ [Log INFO ''Listening on %s'' [Str (Addr (http_server st))],
            ListenAndServeTLS (Addr (http_server st))] @ rest"
    using main_Inr [OF assms, of srv sch sigs] by auto
  let ?pre = "[BuildConfigFromFlags (apiURL fl) (kubeconfig fl), NewForConfig,
               NewModifier (tokenExpiration fl) (annotationPrefix fl) (audience fl) (mountPath fl)] @
              ev4 @ [Log INFO ''Creating server'' [], MakeChan, SignalNotify Interrupt,
                     SignalNotify term_signal]"
  have no_go: "GoFunc \<notin> set ?pre"
    using tls_setup_Inr(4) [OF ev4] by simp
  have no_listen: "ListenAndServeTLS (Addr (http_server st)) \<notin> set ?pre"
    using listens_Nil_notin [OF tls_setup_Inr(3) [OF ev4]] by simp
  have "fst (main fl en srv sch sigs) = ?pre @ GoFunc #
      [Log INFO ''Listening on %s'' [Str (Addr (http_server st))],
       ListenAndServeTLS (Addr (http_server st))] @ rest"
    unfolding tr ev by simp
  then show ?thesis
    using first_of_append [OF no_go no_listen] by simp
qed

subsection \<open>The shutdown coordinator in the process\<close>



text \<open>
  C2. When \<^verbatim>\<open>server.Shutdown\<close> returns \<^verbatim>\<open>http.ErrServerClosed\<close> the coordinator takes it as
  success: whatever signals arrive and however the goroutine and \<^verbatim>\<open>main\<close> interleave,
  \<^verbatim>\<open>server.Close\<close> is never called, nothing is logged as an error or as fatal, and the
  goroutine does not end the process.
\<close>

theorem C2_already_closed_is_success:
  assumes "Shutdown_err srv = Some ErrServerClosed"
  shows "close_times (fst (goroutine co srv sch sigs)) = [] \<and>
         logs ERROR (fst (goroutine co srv sch sigs)) = [] \<and>
         logs FATAL (fst (goroutine co srv sch sigs)) = [] \<and>
         (snd (goroutine co srv sch sigs) = Parked \<or>
          snd (goroutine co srv sch sigs) = Returned \<or>
          snd (goroutine co srv sch sigs) = Ended)"
proof (cases co srv sch sigs rule: goroutine_cases)
  case parked
  then show ?thesis by (simp add: close_times_def logs_def)
next
  case (woken t s)
  show ?thesis
    unfolding woken(2)
    by (simp add: on_signal_closed [OF assms] close_times_def logs_def)
qed

text \<open>The same on the terminate signal, with the timeout of \<^verbatim>\<open>main\<close>.\<close>

theorem C2_already_closed_is_success_witness:
  "Shutdown_err (drained\<lparr>Shutdown_err := Some ErrServerClosed\<rparr>) = Some ErrServerClosed \<and>
   close_times (fst (goroutine \<lparr>timeout = 10 * Second\<rparr>
      (drained\<lparr>Shutdown_err := Some ErrServerClosed\<rparr>) held_up [(0, term_signal)])) = [] \<and>
   logs ERROR (fst (goroutine \<lparr>timeout = 10 * Second\<rparr>
      (drained\<lparr>Shutdown_err := Some ErrServerClosed\<rparr>) held_up [(0, term_signal)])) = [] \<and>
   snd (goroutine \<lparr>timeout = 10 * Second\<rparr>
      (drained\<lparr>Shutdown_err := Some ErrServerClosed\<rparr>) held_up [(0, term_signal)]) = Returned"
  using C2_already_closed_is_success
    [of "drained\<lparr>Shutdown_err := Some ErrServerClosed\<rparr>"
        "\<lparr>timeout = 10 * Second\<rparr>" held_up "[(0, term_signal)]"]
  by (simp add: goroutine_def held_up_def drained_def on_signal_def)

text \<open>
  C3. Every interrupt or terminate signal delivered while the server listens should lead to
  exactly one call of \<^verbatim>\<open>server.Shutdown\<close>. The channel of \<^verbatim>\<open>ShutdownOnTerm\<close> has no buffer.
  In the run below the server listens and the terminate signal is delivered at time 5; the
  goroutine reaches its receive at time 7. The signal is dropped, \<^verbatim>\<open>server.Shutdown\<close> is
  never called, and the process keeps running.
\<close>

theorem C3_signal_before_receive_is_lost:
  "received \<lparr>ready_at = 7, resume_delay = 2000000\<rparr> [(5, term_signal)] = None \<and>
   shutdown_calls
     (fst (goroutine \<lparr>timeout = 10 * Second\<rparr> drained \<lparr>ready_at = 7, resume_delay = 2000000\<rparr>
        [(5, term_signal)])) = [] \<and>
   main default_flags sample_env drained \<lparr>ready_at = 7, resume_delay = 2000000\<rparr> [(5, term_signal)] =
     ([BuildConfigFromFlags [] [], NewForConfig,
       NewModifier 86400 ''eks.amazonaws.com'' ''sts.amazonaws.com''
         ''/var/run/secrets/eks.amazonaws.com/serviceaccount'',
       NewServerCertificateManager ''eks'' ''iam-for-pods'' \<lparr>CommonName = ''iam-for-pods.eks.svc''\<rparr>,
       CertManagerStart,
       Log INFO ''Creating server'' [],
       MakeChan, SignalNotify Interrupt, SignalNotify term_signal, GoFunc,
       Log INFO ''Listening on %s'' [Str '':443''],
       ListenAndServeTLS '':443''], Running)"
  by (simp add: main_def startup_sample sample_env_listens goroutine_def shutdown_calls_def)




text \<open>
  C5. Take a run in which the goroutine has received a signal, \<^verbatim>\<open>server.Shutdown\<close> has
  returned anything but \<^verbatim>\<open>http.ErrServerClosed\<close>, and \<^verbatim>\<open>server.Close\<close> returns while the
  process is still running. When \<^verbatim>\<open>server.Close\<close> returns an error, the goroutine logs it as
  fatal and the process exits with status 255. When it returns \<^verbatim>\<open>nil\<close>, the goroutine
  returns, nothing fatal is logged, and the process exits with status 0.
\<close>

theorem C5_forced_close_result_decides_exit:
  assumes "startup fl en = (ev, Inr st)" and "listen_error en = None"
    and "received sch sigs = Some (t, s)"
    and "Shutdown_err srv \<noteq> Some ErrServerClosed"
    and "max (t + int (Shutdown_elapsed srv)) (t + 10000000000) + int (Close_elapsed srv)
           \<le> t + int (resume_delay sch)"
  shows "(Close_err srv = Some e \<longrightarrow>
            snd (goroutine (coord st) srv sch sigs) = Exited 255 \<and>
            logs FATAL (fst (goroutine (coord st) srv sch sigs)) =
              [Log FATAL ''Error closing server: %v'' [Err (Some e)]] \<and>
            snd (main fl en srv sch sigs) = Exit 255) \<and>
         (Close_err srv = None \<longrightarrow>
            snd (goroutine (coord st) srv sch sigs) = Returned \<and>
            logs FATAL (fst (goroutine (coord st) srv sch sigs)) = [] \<and>
            snd (main fl en srv sch sigs) = Exit 0)"
proof -
  have co: "coord st = \<lparr>timeout = 10 * Second\<rparr>"
    using assms(1) by (rule startup_Inr(1))
  show ?thesis
    unfolding main_exit [OF assms(1,2)] goroutine_received [OF assms(3)] co
    using assms(5)
    by (auto simp: on_signal_other [OF assms(4)] logs_def ten_seconds split: option.split)
qed

text \<open>Both outcomes of the forced close, with \<^verbatim>\<open>main\<close> held up for eleven seconds.\<close>

theorem C5_forced_close_result_decides_exit_witness:
  "received held_up [(0, Interrupt)] = Some (0, Interrupt) \<and>
   snd (main default_flags sample_env
          (drained\<lparr>Close_err := Some (ErrorString ''close tcp [::]:443: use of closed network connection'')\<rparr>)
          held_up [(0, Interrupt)]) = Exit 255 \<and>
   snd (main default_flags sample_env drained held_up [(0, Interrupt)]) = Exit 0"
  using C5_forced_close_result_decides_exit
    [OF startup_sample sample_env_listens,
       of held_up "[(0, Interrupt)]" 0 Interrupt
          "drained\<lparr>Close_err := Some (ErrorString ''close tcp [::]:443: use of closed network connection'')\<rparr>"
          "ErrorString ''close tcp [::]:443: use of closed network connection''"]
    C5_forced_close_result_decides_exit
    [OF startup_sample sample_env_listens, of held_up "[(0, Interrupt)]" 0 Interrupt drained Canceled]
  by (simp add: drained_def held_up_def)

subsection \<open>Startup and the certificate hook\<close>

text \<open>
  C6. In in-cluster mode the hook installed in the TLS configuration answers a handshake
  made while \<^verbatim>\<open>certManager.Current()\<close> is \<^verbatim>\<open>nil\<close> with no certificate and the error
  ``no serving certificate available for the webhook, is the CSR approved?''. It returns
  that error as a value: the same hook hands out the certificate as soon as there is one.
\<close>

theorem C6_absent_certificate_fails_handshake:
  assumes "inCluster fl" and "startup fl en = (ev, Inr st)"
  shows "GetCertificate (TLSConfig_GetCertificate (http_server st)) None generated =
           (None, Some (ErrorString
              ''no serving certificate available for the webhook, is the CSR approved?'')) \<and>
         GetCertificate (TLSConfig_GetCertificate (http_server st)) (Some c) generated =
           (Some c, None)"
  using assms startup_Inr(2) [OF assms(2)] by (simp add: no_certificate_message_def)

text \<open>The hook of a run with the default flags.\<close>

theorem C6_absent_certificate_fails_handshake_witness:
  "inCluster default_flags \<and>
   GetCertificate CertManagerCurrent (None :: string option) (None, None) =
     (None, Some (ErrorString
        ''no serving certificate available for the webhook, is the CSR approved?'')) \<and>
   GetCertificate CertManagerCurrent (Some ''certificate'') (None, None) =
     (Some ''certificate'', None)"
  using C6_absent_certificate_fails_handshake
    [OF _ startup_sample, of "(None, None) :: string option \<times> go_error option" "''certificate''"]
  by (simp add: default_flags_def)

text \<open>
  C7. Out of cluster, a failure to generate or to write the webhook configuration ends the
  process with status 255 before \<^verbatim>\<open>ListenAndServeTLS\<close> is called; and whenever
  \<^verbatim>\<open>ListenAndServeTLS\<close> is called, the generated bytes have been written to the path of
  \<^verbatim>\<open>--webhook-config\<close> before.
\<close>

theorem C7_descriptor_written_before_listening:
  assumes "\<not> inCluster fl"
  shows "(isl (generate_config en) \<or> write_file en \<noteq> None \<longrightarrow>
            snd (main fl en srv sch sigs) = Exit 255 \<and>
            OsExit 255 \<in> set (fst (main fl en srv sch sigs)) \<and>
            listens (fst (main fl en srv sch sigs)) = []) \<and>
         (listens (fst (main fl en srv sch sigs)) \<noteq> [] \<longrightarrow>
            first_of (WriteFile (webhookConfig fl) (projr (generate_config en)) 420)
              (ListenAndServeTLS ('':'' @ itoa (port fl))) (fst (main fl en srv sch sigs)))"
proof (cases fl en rule: startup_cases)
  case (fatal ev)
  then have "main fl en srv sch sigs = (ev, Exit 255)"
    by (rule main_Inl)
  with startup_Inl(3,4) [OF fatal] show ?thesis by simp
next
  case (running ev st)
  obtain ev4 where ev4: "tls_setup fl en = (ev4, Inr (TLSConfig_GetCertificate (http_server st)))"
    and ev: "ev = [BuildConfigFromFlags (apiURL fl) (kubeconfig fl), NewForConfig,
                   NewModifier (tokenExpiration fl) (annotationPrefix fl) (audience fl) (mountPath fl)] @
                  ev4 @
                  [Log INFO ''Creating server'' [], MakeChan, SignalNotify Interrupt,
                   SignalNotify term_signal, GoFunc]"
    using startup_Inr(5) [OF running] by blast
  obtain pre bytes where gen: "generate_config en = Inr bytes" and wr: "write_file en = None"
    and ev4_eq: "ev4 = pre @ [WriteFile (webhookConfig fl) bytes 420]"
    and pre_listen: "\<forall>a. ListenAndServeTLS a \<notin> set pre"
    and pre_write: "WriteFile (webhookConfig fl) bytes 420 \<notin> set pre"
    using tls_setup_Inr(6) [OF ev4 assms] by blast
  obtain tail where tr: "fst (main fl en srv sch sigs) =
      ev @ [Log INFO ''Listening on %s'' [Str (Addr (http_server st))],
            ListenAndServeTLS (Addr (http_server st))] @ tail"
    using main_Inr [OF running, of srv sch sigs] by auto
  let ?w = "WriteFile (webhookConfig fl) bytes 420"
  let ?l = "ListenAndServeTLS ('':'' @ itoa (port fl))"
  let ?pre = "[BuildConfigFromFlags (apiURL fl) (kubeconfig fl), NewForConfig,
               NewModifier (tokenExpiration fl) (annotationPrefix fl) (audience fl) (mountPath fl)] @ pre"
  have "?w \<notin> set ?pre" and "?l \<notin> set ?pre"
    using pre_listen pre_write by simp_all
  then have "first_of ?w ?l (?pre @ ?w # ys)" for ys
    using first_of_append [of ?w ?pre ?l "?w # ys"] by simp
  moreover have "\<exists>ys. fst (main fl en srv sch sigs) = ?pre @ ?w # ys"
    unfolding tr ev ev4_eq by simp
  ultimately have "first_of ?w ?l (fst (main fl en srv sch sigs))"
    by auto
  with gen wr show ?thesis by simp
qed

text \<open>A write that fails, and a write that succeeds.\<close>

theorem C7_descriptor_written_before_listening_witness:
  "snd (main (default_flags\<lparr>inCluster := False\<rparr>)
          (sample_env\<lparr>write_file := Some (ErrorString ''permission denied'')\<rparr>) drained prompt []) = Exit 255 \<and>
   listens (fst (main (default_flags\<lparr>inCluster := False\<rparr>)
          (sample_env\<lparr>write_file := Some (ErrorString ''permission denied'')\<rparr>) drained prompt [])) = [] \<and>
   listens (fst (main (default_flags\<lparr>inCluster := False\<rparr>) sample_env drained prompt [])) = ['':443''] \<and>
   first_of (WriteFile ''/etc/webhook/config.yaml'' ''webhooks: []'' 420) (ListenAndServeTLS '':443'')
     (fst (main (default_flags\<lparr>inCluster := False\<rparr>) sample_env drained prompt []))"
  using C7_descriptor_written_before_listening
    [of "default_flags\<lparr>inCluster := False\<rparr>"
        "sample_env\<lparr>write_file := Some (ErrorString ''permission denied'')\<rparr>" drained prompt "[]"]
    C7_descriptor_written_before_listening
    [of "default_flags\<lparr>inCluster := False\<rparr>" sample_env drained prompt "[]"]
  by (simp add: main_def goroutine_def startup_def tls_setup_def ShutdownOnTerm_def fatalf_def
        default_flags_def sample_env_def itoa_default_port)

text \<open>
  C8. In in-cluster mode, once the client configuration and the clientset are built, the
  certificate manager is constructed exactly once, and the common name of the request it
  is given is the service name, a dot, the namespace and \<^verbatim>\<open>.svc\<close>.
\<close>

theorem C8_csr_common_name:
  assumes "inCluster fl" and "build_config en = None" and "new_for_config en = None"
  shows "csr_requests (fst (main fl en srv sch sigs)) =
           [\<lparr>CommonName = serviceName fl @ ''.'' @ namespaceName fl @ ''.svc''\<rparr>]"
proof (cases fl en rule: startup_cases)
  case (fatal ev)
  then have "fst (main fl en srv sch sigs) = fst (startup fl en)"
    by (simp add: main_Inl)
  with assms show ?thesis by (simp add: startup_csr)
next
  case (running ev st)
  obtain mid tail where "fst (main fl en srv sch sigs) =
      fst (startup fl en) @ [Log INFO ''Listening on %s'' [Str (Addr (http_server st))],
            ListenAndServeTLS (Addr (http_server st))] @ mid @ tail"
    and "mid = [] \<or> mid = map snd (fst (goroutine (coord st) srv sch sigs))"
    and "csr_requests tail = []"
    using main_Inr [OF running, of srv sch sigs] running by auto
  with assms show ?thesis
    by (auto simp: csr_requests_append startup_csr goroutine_csr)
qed

text \<open>With the default flags the common name is \<^verbatim>\<open>iam-for-pods.eks.svc\<close>.\<close>

theorem C8_csr_common_name_witness:
  "inCluster default_flags \<and> build_config sample_env = None \<and> new_for_config sample_env = None \<and>
   csr_requests (fst (main default_flags sample_env drained prompt [(0, term_signal)])) =
     [\<lparr>CommonName = ''iam-for-pods.eks.svc''\<rparr>]"
  using C8_csr_common_name [of default_flags sample_env drained prompt "[(0, term_signal)]"]
  by (simp add: default_flags_def sample_env_def)

subsection \<open>Flags and the drain deadline\<close>

text \<open>
  C9. The defaults: port 443, in-cluster mode, certificate directory
  \<^verbatim>\<open>/etc/webhook/certs\<close>, a self-signed lifetime of \<^verbatim>\<open>time.Hour*24*365\<close>, which is 365 days
  in nanoseconds without overflow, and the webhook configuration at
  \<^verbatim>\<open>/etc/webhook/config.yaml\<close>.
\<close>

theorem C9_flag_defaults:
  "port default_flags = 443 \<and>
   inCluster default_flags = True \<and>
   certDirectory default_flags = ''/etc/webhook/certs'' \<and>
   selfSignedLife default_flags = Hour * 24 * 365 \<and>
   sint (selfSignedLife default_flags) = 365 * 24 * 60 * 60 * 1000000000 \<and>
   webhookConfig default_flags = ''/etc/webhook/config.yaml''"
  using one_year by (simp add: default_flags_def)

text \<open>
  C10. Whatever the flags, the environment and the schedule, the coordinator that \<^verbatim>\<open>main\<close>
  registers holds a timeout of ten seconds, and every context the process creates with
  \<^verbatim>\<open>context.WithTimeout\<close> gets that timeout.
\<close>

theorem C10_drain_deadline_is_ten_seconds:
  "(snd (startup fl en) = Inr st \<longrightarrow>
      timeout (coord st) = 10 * Second \<and> sint (timeout (coord st)) = 10000000000) \<and>
   (\<forall>d \<in> set (timeouts (fst (main fl en srv sch sigs))). d = 10 * Second \<and> sint d = 10000000000)"
proof (cases fl en rule: startup_cases)
  case (fatal ev)
  then have "main fl en srv sch sigs = (ev, Exit 255)"
    by (rule main_Inl)
  with fatal startup_Inl(2) [OF fatal] show ?thesis by simp
next
  case (running ev st')
  have co: "coord st' = \<lparr>timeout = 10 * Second\<rparr>"
    using running by (rule startup_Inr(1))
  obtain ev4 where ev4: "tls_setup fl en = (ev4, Inr (TLSConfig_GetCertificate (http_server st')))"
    and ev: "ev = [BuildConfigFromFlags (apiURL fl) (kubeconfig fl), NewForConfig,
                   NewModifier (tokenExpiration fl) (annotationPrefix fl) (audience fl) (mountPath fl)] @
                  ev4 @
                  [Log INFO ''Creating server'' [], MakeChan, SignalNotify Interrupt,
                   SignalNotify term_signal, GoFunc]"
    using startup_Inr(5) [OF running] by blast
  have ev_t: "timeouts ev = []"
    unfolding ev using tls_setup_Inr(2) [OF ev4] by (simp add: timeouts_append)
  obtain mid tail where tr: "fst (main fl en srv sch sigs) =
      ev @ [Log INFO ''Listening on %s'' [Str (Addr (http_server st'))],
            ListenAndServeTLS (Addr (http_server st'))] @ mid @ tail"
    and mid: "mid = [] \<or> mid = map snd (fst (goroutine (coord st') srv sch sigs))"
    and tail: "timeouts tail = []"
    using main_Inr [OF running] by blast
  have "timeouts (fst (main fl en srv sch sigs)) = timeouts mid"
    unfolding tr by (simp add: timeouts_append ev_t tail)
  with mid goroutine_timeouts [of "coord st'" srv sch sigs]
  have "set (timeouts (fst (main fl en srv sch sigs))) \<subseteq> {10 * Second}"
    by (auto simp: co)
  with running co show ?thesis
    by (auto simp: ten_seconds)
qed

text \<open>A run with the default flags that receives an interrupt.\<close>

theorem C10_drain_deadline_is_ten_seconds_witness:
  "sint (timeout (coord \<lparr>http_server = \<lparr>Addr = '':443'', TLSConfig_GetCertificate = CertManagerCurrent\<rparr>,
           coord = \<lparr>timeout = 10 * Second\<rparr>\<rparr>)) = 10000000000 \<and>
   timeouts (fst (main default_flags sample_env drained prompt [(0, Interrupt)])) = [10 * Second]"
  using C10_drain_deadline_is_ten_seconds
    [of default_flags sample_env
        "\<lparr>http_server = \<lparr>Addr = '':443'', TLSConfig_GetCertificate = CertManagerCurrent\<rparr>,
          coord = \<lparr>timeout = 10 * Second\<rparr>\<rparr>"
        drained prompt "[(0, Interrupt)]"]
  by (simp add: main_def goroutine_def startup_sample sample_env_listens drained_def prompt_def
        on_signal_def after_serve_def ten_seconds)

end
